theory Spec2Isabelle
  imports Main "HOL-Library.Word"
begin

section \<open>Strings\<close>

text \<open>
  A Python \<open>str\<close> is a sequence of code points and \<open>len\<close> counts code points, so
  a \<open>str\<close> is modelled as the list of its code points. \<open>lit\<close> turns a source literal
  into that representation.
\<close>

type_synonym pystr = "nat list"

definition lit :: "string \<Rightarrow> pystr" where
  "lit s = map of_char s"

text \<open>The code points \<open>str.isspace\<close> accepts; \<open>str.strip()\<close> removes them at both ends.\<close>

definition isspace :: "nat \<Rightarrow> bool" where
  "isspace c = ((9 \<le> c \<and> c \<le> 13) \<or> (28 \<le> c \<and> c \<le> 32) \<or> c = 133 \<or> c = 160
      \<or> c = 5760 \<or> (8192 \<le> c \<and> c \<le> 8202) \<or> c = 8232 \<or> c = 8233
      \<or> c = 8239 \<or> c = 8287 \<or> c = 12288)"

definition strip :: "pystr \<Rightarrow> pystr" where
  "strip s = rev (dropWhile isspace (rev (dropWhile isspace s)))"

section \<open>Data model (api/index.py, lines 36-69)\<close>

text \<open>
  The columns of the three tables. Relationship attributes (\<open>posts\<close>, \<open>comments\<close>,
  \<open>author\<close>) are views over the foreign keys and carry no data of their own.
  A nullable column is an \<open>option\<close>.
\<close>

record user =
  u_id :: nat
  u_name :: pystr
  u_email :: pystr
  u_password :: pystr

record blog_post =
  p_id :: nat
  p_title :: pystr
  p_subtitle :: pystr
  p_date :: pystr
  p_body :: pystr
  p_img_url :: pystr
  p_author_id :: "nat option"
  p_genre :: pystr

record comment =
  c_id :: nat
  c_text :: pystr
  c_author_id :: "nat option"
  c_post_id :: "nat option"

text \<open>
  What a request can see and change: the three tables, the client's session (the user id
  \<open>login_user\<close> stored there, and the queued flash messages with their category), and
  the module global \<open>year\<close>.
\<close>

record state =
  users :: "user list"
  blog_posts :: "blog_post list"
  comments :: "comment list"
  session_user_id :: "nat option"
  flashes :: "(string \<times> string) list"
  year :: nat

text \<open>Exceptions that leave a view function unhandled.\<close>

datatype exn =
    AttributeError
  | KeyError pystr
  | UnmappedInstanceError
  | IntegrityError
  | OverflowError

text \<open>\<open>current_user\<close> is either flask-login's anonymous object or a row of \<open>users\<close>.\<close>

datatype identity = Anonymous | Authenticated user

section \<open>Forms (api/forms.py)\<close>

datatype http_method = GET | POST

record create_post_form =
  cf_title :: pystr
  cf_subtitle :: pystr
  cf_genre :: pystr
  cf_img_url :: pystr
  cf_body :: pystr

record register_form =
  rf_name :: pystr
  rf_email :: pystr
  rf_password :: pystr

record login_form =
  lf_email :: pystr
  lf_password :: pystr

text \<open>
  A request to a form route: its HTTP verb, whether the CSRF token that \<open>FlaskForm\<close> adds to
  every form checks out, and the submitted fields (a field that was not sent is empty).
\<close>

record 'f request =
  rq_method :: http_method
  rq_csrf_ok :: bool
  rq_form :: 'f

text \<open>
  \<open>DataRequired\<close>: the field's data is truthy and, being a string, not blank after
  \<open>strip()\<close>. It stops the validation chain when it fails.
\<close>

definition DataRequired :: "pystr \<Rightarrow> bool" where
  "DataRequired d = (d \<noteq> [] \<and> strip d \<noteq> [])"

text \<open>\<open>Length(min, max)\<close>: \<open>min <= len(data) <= max\<close>.\<close>

definition Length :: "nat \<Rightarrow> nat \<Rightarrow> pystr \<Rightarrow> bool" where
  "Length mn mx d = (mn \<le> length d \<and> length d \<le> mx)"

definition genre_choices :: "pystr list" where
  "genre_choices = [lit ''Tech'', lit ''Education'', lit ''Entertainment'', lit ''Random Thoughts'']"

text \<open>
  \<open>CreatePostForm\<close>. The parameter \<open>URL\<close> is wtforms' \<open>URL()\<close> validator, a regular
  expression of that library. A \<open>SelectField\<close> also rejects data outside its choices.
\<close>

definition CreatePostForm_validate :: "(pystr \<Rightarrow> bool) \<Rightarrow> create_post_form \<Rightarrow> bool" where
  "CreatePostForm_validate URL f =
     (DataRequired (cf_title f) \<and> DataRequired (cf_subtitle f)
      \<and> cf_genre f \<in> set genre_choices \<and> DataRequired (cf_genre f)
      \<and> DataRequired (cf_img_url f) \<and> URL (cf_img_url f)
      \<and> DataRequired (cf_body f))"

definition RegisterForm_validate :: "register_form \<Rightarrow> bool" where
  "RegisterForm_validate f =
     (DataRequired (rf_name f) \<and> DataRequired (rf_email f)
      \<and> DataRequired (rf_password f) \<and> Length 7 25 (rf_password f))"


text \<open>\<open>form.validate_on_submit()\<close>: the request is a submission and every field validates.\<close>

definition validate_on_submit :: "('f \<Rightarrow> bool) \<Rightarrow> 'f request \<Rightarrow> bool" where
  "validate_on_submit validate rq = (rq_method rq = POST \<and> rq_csrf_ok rq \<and> validate (rq_form rq))"

section \<open>Credential service (werkzeug.security)\<close>

text \<open>
  Modelled from the spec: \<open>generate_password_hash\<close> and \<open>check_password_hash\<close> belong to
  the werkzeug library, which is not under src/. The spec (4.1) describes a salted,
  iterated hash (PBKDF2-HMAC-SHA256) whose stored value embeds the salt and the
  parameters, and a verification that hashes the password with the embedded salt and
  parameters and compares; a malformed stored value is a controlled \<open>False\<close>.
  The stored value has the layout \<open>parameters$salt$hexdigest\<close>. The iterated hash itself is
  the parameter \<open>kdf\<close> (parameters, salt, password to a 256-bit digest); the salt drawn by the
  random generator is an argument.
\<close>

type_synonym kdf = "pystr \<Rightarrow> pystr \<Rightarrow> pystr \<Rightarrow> 256 word"

definition SALT_CHARS :: pystr where
  "SALT_CHARS = lit ''abcdefghijklmnopqrstuvwxyzABCDEFGHIJKLMNOPQRSTUVWXYZ0123456789''"

text \<open>What \<open>gen_salt(length)\<close> can return: \<open>length\<close> characters of \<open>SALT_CHARS\<close>.\<close>

definition gen_salt :: "nat \<Rightarrow> pystr \<Rightarrow> bool" where
  "gen_salt n salt = (length salt = n \<and> (\<forall>c \<in> set salt. c \<in> set SALT_CHARS))"

definition hexdigit :: "nat \<Rightarrow> nat" where
  "hexdigit d = (if d < 10 then 48 + d else 87 + d)"

definition hex :: "256 word \<Rightarrow> pystr" where
  "hex w = map (\<lambda>i. hexdigit (unat (drop_bit (4 * (63 - i)) w) mod 16)) [0..<64]"

definition dollar :: nat where
  "dollar = 36"

text \<open>
  Modelled from the spec: the hashing operation of werkzeug, which is not under src/.
  The stored value embeds the parameters and the salt in front of the digest.
\<close>

definition generate_password_hash :: "kdf \<Rightarrow> pystr \<Rightarrow> pystr \<Rightarrow> pystr \<Rightarrow> pystr" where
  "generate_password_hash kdf salt password hmethod =
     hmethod @ dollar # salt @ dollar # hex (kdf hmethod salt password)"

text \<open>\<open>s.split(c, 1)\<close> for an \<open>s\<close> that contains \<open>c\<close>: the text before and after the first \<open>c\<close>.\<close>

definition split1 :: "nat \<Rightarrow> pystr \<Rightarrow> pystr \<times> pystr" where
  "split1 c s = (takeWhile (\<lambda>x. x \<noteq> c) s, drop 1 (dropWhile (\<lambda>x. x \<noteq> c) s))"

text \<open>
  Modelled from the spec: the verification of werkzeug, which is not under src/. It hashes
  the password with the embedded salt and parameters and compares with the stored digest;
  a stored value without two separators is refused.
\<close>

definition check_password_hash :: "kdf \<Rightarrow> pystr \<Rightarrow> pystr \<Rightarrow> bool" where
  "check_password_hash kdf pwhash password =
     (if count_list pwhash dollar < 2 then False
      else (case split1 dollar pwhash of
              (hmethod, rest) \<Rightarrow>
                (case split1 dollar rest of
                   (salt, hashval) \<Rightarrow> hex (kdf hmethod salt password) = hashval)))"

section \<open>Persistence layer (flask-sqlalchemy over the default SQLite file)\<close>

text \<open>
  An \<open>INTEGER PRIMARY KEY\<close> column left unset on insert receives one more than the
  largest key in the table (as long as that key is below the largest 64-bit signed
  integer).
\<close>

definition autoincrement :: "nat list \<Rightarrow> nat" where
  "autoincrement keys = Suc (fold max keys 0)"

text \<open>
  \<open>User.query.get(user_id)\<close>. The id comes from the session, where \<open>login_user\<close> put the
  key of a stored row.
\<close>

definition User_query_get :: "nat \<Rightarrow> state \<Rightarrow> user option" where
  "User_query_get i st = find (\<lambda>u. u_id u = i) (users st)"

text \<open>
  \<open>BlogPost.query.get(post_id)\<close>. The id comes from the URL, where the \<open>int\<close> converter
  accepts any run of digits. SQLite integers are 64-bit signed: binding a larger id as the
  parameter of the query raises \<open>OverflowError\<close>.
\<close>

definition BlogPost_query_get :: "nat \<Rightarrow> state \<Rightarrow> exn + blog_post option" where
  "BlogPost_query_get i st =
     (if 2 ^ 63 \<le> i then Inl OverflowError else Inr (find (\<lambda>p. p_id p = i) (blog_posts st)))"

text \<open>\<open>User.query.filter_by(email=e).first()\<close>: the first matching row, or \<open>None\<close>.\<close>

definition User_filter_by_email_first :: "pystr \<Rightarrow> state \<Rightarrow> user option" where
  "User_filter_by_email_first e st = find (\<lambda>u. u_email u = e) (users st)"

text \<open>\<open>BlogPost.query.filter_by(genre=category)\<close> and \<open>BlogPost.query.all()\<close>.\<close>

definition BlogPost_filter_by_genre :: "pystr \<Rightarrow> state \<Rightarrow> blog_post list" where
  "BlogPost_filter_by_genre g st = filter (\<lambda>p. p_genre p = g) (blog_posts st)"

definition BlogPost_query_all :: "state \<Rightarrow> blog_post list" where
  "BlogPost_query_all st = blog_posts st"

text \<open>
  \<open>db.session.add(new_user); db.session.commit()\<close>. The \<open>users\<close> table declares no
  unique column besides the key, so the insert always succeeds. The row is returned
  with its key, as \<open>new_user.id\<close> reads it after the commit.
\<close>

definition add_commit_user :: "user \<Rightarrow> state \<Rightarrow> user \<times> state" where
  "add_commit_user new_user st =
     (let row = new_user\<lparr>u_id := autoincrement (map u_id (users st))\<rparr>
      in (row, st\<lparr>users := users st @ [row]\<rparr>))"

text \<open>
  \<open>db.session.add(post); db.session.commit()\<close>. \<open>title\<close> is declared \<open>unique=True\<close>:
  the insert of a second row with a stored title fails and the commit raises
  \<open>IntegrityError\<close>, leaving the table as it was.
\<close>

definition add_commit_post :: "blog_post \<Rightarrow> state \<Rightarrow> exn + state" where
  "add_commit_post post st =
     (if \<exists>q \<in> set (blog_posts st). p_title q = p_title post then Inl IntegrityError
      else Inr (st\<lparr>blog_posts :=
                  blog_posts st @ [post\<lparr>p_id := autoincrement (map p_id (blog_posts st))\<rparr>]\<rparr>))"

text \<open>
  \<open>db.session.delete(x); db.session.commit()\<close>. \<open>Session.delete\<close> raises
  \<open>UnmappedInstanceError\<close> for an argument that is not a mapped row, such as \<open>None\<close>.
  The \<open>comments\<close> relationship declares no cascade, so the comments of a deleted post
  stay, with their \<open>post_id\<close> set to null.
\<close>

definition delete_commit_post :: "blog_post option \<Rightarrow> state \<Rightarrow> exn + state" where
  "delete_commit_post x st =
     (case x of
        None \<Rightarrow> Inl UnmappedInstanceError
      | Some post \<Rightarrow>
          Inr (st\<lparr>blog_posts := filter (\<lambda>q. p_id q \<noteq> p_id post) (blog_posts st),
                  comments := map (\<lambda>c. if c_post_id c = Some (p_id post)
                                        then c\<lparr>c_post_id := None\<rparr> else c) (comments st)\<rparr>))"

section \<open>Session and identity (flask-login)\<close>

text \<open>The \<open>user_loader\<close> callback, api/index.py line 92.\<close>

definition load_user :: "nat \<Rightarrow> state \<Rightarrow> user option" where
  "load_user user_id st = User_query_get user_id st"

text \<open>
  \<open>current_user\<close>: the user the session's id loads, the anonymous object when the session
  holds no id or the id loads nothing.
\<close>

definition current_user :: "state \<Rightarrow> identity" where
  "current_user st =
     (case session_user_id st of
        None \<Rightarrow> Anonymous
      | Some i \<Rightarrow> (case load_user i st of None \<Rightarrow> Anonymous | Some u \<Rightarrow> Authenticated u))"

definition is_authenticated :: "identity \<Rightarrow> bool" where
  "is_authenticated c = (case c of Anonymous \<Rightarrow> False | Authenticated u \<Rightarrow> True)"

text \<open>\<open>current_user.id\<close>: the anonymous object has no such attribute.\<close>

definition attr_id :: "identity \<Rightarrow> exn + nat" where
  "attr_id c = (case c of Anonymous \<Rightarrow> Inl AttributeError | Authenticated u \<Rightarrow> Inr (u_id u))"

definition login_user :: "user \<Rightarrow> state \<Rightarrow> state" where
  "login_user u st = st\<lparr>session_user_id := Some (u_id u)\<rparr>"

definition logout_user :: "state \<Rightarrow> state" where
  "logout_user st = st\<lparr>session_user_id := None\<rparr>"

text \<open>\<open>flash(message)\<close> queues the message under the default category.\<close>

definition flash :: "string \<Rightarrow> state \<Rightarrow> state" where
  "flash message st = st\<lparr>flashes := flashes st @ [(''message'', message)]\<rparr>"

section \<open>Responses\<close>

text \<open>The values a view function hands to a template.\<close>

datatype tval =
    TNat nat
  | TBool bool
  | TStr pystr
  | TUser identity
  | TPost "blog_post option"
  | TPosts "blog_post list"
  | TRegisterForm register_form
  | TLoginForm login_form
  | TCreatePostForm create_post_form

text \<open>
  What the client receives: a redirect to \<open>url_for(endpoint)\<close>, a rendered template with
  its context, or the error page of \<open>abort(code)\<close> (\<open>abort\<close> raises an \<open>HTTPException\<close>,
  which Flask turns into the response with that status).
\<close>

datatype response =
    Redirect string
  | Render string "(string \<times> tval) list"
  | Aborted nat

text \<open>
  The outcome of a view function: its response, or the exception that left it unhandled,
  and the state afterwards.
\<close>

type_synonym result = "(exn + response) \<times> state"

definition abort :: "nat \<Rightarrow> state \<Rightarrow> result" where
  "abort code st = (Inr (Aborted code), st)"

section \<open>The admin decorator (api/index.py, lines 78-88)\<close>

text \<open>
  The \<open>try\<close> block reads \<open>current_user.id\<close> and, for id 1, calls the wrapped function;
  \<open>except AttributeError\<close> covers the whole block, the call included.
\<close>

definition admin_only :: "(state \<Rightarrow> result) \<Rightarrow> state \<Rightarrow> result" where
  "admin_only function st =
     (let r = (case attr_id (current_user st) of
                 Inl e \<Rightarrow> (Inl e, st)
               | Inr i \<Rightarrow> if i = 1 then function st else abort 403 st)
      in case fst r of
           Inl AttributeError \<Rightarrow> abort 403 (snd r)
         | _ \<Rightarrow> r)"

section \<open>View functions (api/index.py, lines 97-221)\<close>

text \<open>
  \<open>home\<close>. Nothing in the \<open>try\<close> block raises in this model, so the \<open>except\<close> branch
  is not taken.
\<close>

definition home :: "state \<Rightarrow> result" where
  "home st =
     (let posts = BlogPost_query_all st
      in (Inr (Render ''index.html''
                [(''year'', TNat (year st)),
                 (''user'', TUser (current_user st)),
                 (''logged_in'', TBool (is_authenticated (current_user st))),
                 (''posts'', TPosts posts)]), st))"

text \<open>
  \<open>register\<close>. \<open>salt\<close> is the salt \<open>generate_password_hash\<close> draws with \<open>salt_length=8\<close>
  when it is called. The key of \<open>new_user\<close> is unset until the commit assigns it.
\<close>

definition register :: "kdf \<Rightarrow> pystr \<Rightarrow> register_form request \<Rightarrow> state \<Rightarrow> result" where
  "register kdf salt rq st =
     (let form = rq_form rq in
      if validate_on_submit RegisterForm_validate rq then
        (case User_filter_by_email_first (rf_email form) st of
           None \<Rightarrow>
             (let new_user = \<lparr>u_id = 0, u_name = rf_name form, u_email = rf_email form,
                              u_password = generate_password_hash kdf salt (rf_password form)
                                             (lit ''pbkdf2:sha256'')\<rparr>;
                  (row, st1) = add_commit_user new_user st;
                  st2 = login_user row st1
              in (Inr (Redirect ''home''), st2))
         | Some u \<Rightarrow>
             (Inr (Redirect ''login''),
              flash ''This email is already registered in our database. Try logging in instead.'' st))
      else
        (Inr (Render ''register.html''
               [(''year'', TNat (year st)),
                (''form'', TRegisterForm form),
                (''logged_in'', TBool (is_authenticated (current_user st))),
                (''user'', TUser (current_user st))]), st))"


definition logout :: "state \<Rightarrow> result" where
  "logout st = (Inr (Redirect ''home''), logout_user st)"

text \<open>The calendar day \<open>datetime.today()\<close> reads, and \<open>strftime('%m/%d/%Y')\<close> on it.\<close>

record date =
  d_year :: nat
  d_month :: nat
  d_day :: nat

fun dec :: "nat \<Rightarrow> pystr" where
  "dec n = (if n < 10 then [48 + n] else dec (n div 10) @ [48 + n mod 10])"

declare dec.simps [simp del]

definition pad2 :: "nat \<Rightarrow> pystr" where
  "pad2 n = (if n < 10 then 48 # dec n else dec n)"

definition strftime_mdY :: "date \<Rightarrow> pystr" where
  "strftime_mdY d = pad2 (d_month d) @ 47 # pad2 (d_day d) @ 47 # dec (d_year d)"

text \<open>
  \<open>new_post\<close>, before decoration. \<open>post.author\<close> is never set, so \<open>author_id\<close> stays null.
\<close>

definition new_post :: "(pystr \<Rightarrow> bool) \<Rightarrow> date \<Rightarrow> create_post_form request \<Rightarrow> state \<Rightarrow> result" where
  "new_post URL today rq st =
     (let form = rq_form rq in
      if validate_on_submit (CreatePostForm_validate URL) rq then
        (let post = \<lparr>p_id = 0, p_title = cf_title form, p_subtitle = cf_subtitle form,
                      p_date = strftime_mdY today, p_body = cf_body form,
                      p_img_url = cf_img_url form, p_author_id = None,
                      p_genre = cf_genre form\<rparr>
         in case add_commit_post post st of
              Inl e \<Rightarrow> (Inl e, st)
            | Inr st1 \<Rightarrow> (Inr (Redirect ''home''), st1))
      else
        (Inr (Render ''make-post.html''
               [(''form'', TCreatePostForm form),
                (''year'', TNat (year st)),
                (''logged_in'', TBool (is_authenticated (current_user st)))]), st))"

text \<open>\<open>delete_post\<close>, before decoration.\<close>

definition delete_post :: "nat \<Rightarrow> state \<Rightarrow> result" where
  "delete_post post_id st =
     (case BlogPost_query_get post_id st of
        Inl e \<Rightarrow> (Inl e, st)
      | Inr post_to_delete \<Rightarrow>
          (case delete_commit_post post_to_delete st of
             Inl e \<Rightarrow> (Inl e, st)
           | Inr st1 \<Rightarrow> (Inr (Redirect ''home''), st1)))"

definition show_post :: "nat \<Rightarrow> state \<Rightarrow> result" where
  "show_post post_id st =
     (case BlogPost_query_get post_id st of
        Inl e \<Rightarrow> (Inl e, st)
      | Inr requested_post \<Rightarrow>
          (Inr (Render ''post.html'' [(''post'', TPost requested_post), (''year'', TNat (year st))]), st))"

definition category_pics :: "(pystr \<times> pystr) list" where
  "category_pics =
     [(lit ''Random Thoughts'',
       lit (''https://images.unsplash.com/photo-1495567720989-cebdbdd97913?ixlib=rb-4.0.3&ixid=MnwxMjA3f''
            @ ''DB8MHxwaG90by1wYWdlfHx8fGVufDB8fHx8&auto=format&fit=crop&w=2070&q=80'')),
      (lit ''Entertainment'',
       lit (''https://images.unsplash.com/photo-1513346940221-6f673d962e97?ixlib=rb-4.0.3&''
            @ ''ixid=MnwxMjA3fDB8MHxwaG90by1wYWdlfHx8fGVufDB8fHx8&auto=format&fit=crop&w=2070&q=80'')),
      (lit ''Technology'',
       lit (''https://images.unsplash.com/photo-1526374965328-7f61d4dc18c5?ixlib=rb-4.0.3&ixid=MnwxMjA3fDB8MH''
            @ ''xzZWFyY2h8MTV8fHRlY2h8ZW58MHwwfDB8fA%3D%3D&auto=format&fit=crop&w=800&q=60'')),
      (lit ''Education'',
       lit (''https://images.unsplash.com/photo-1521587760476-6c12a4b040da?ixlib=rb-4.0.3&ixid=MnwxMjA3fDB8MH''
            @ ''xwaG90by1wYWdlfHx8fGVufDB8fHx8&auto=format&fit=crop&w=2070&q=80''))]"

text \<open>
  \<open>post_category\<close>. The arguments of \<open>render_template\<close> are evaluated before the call, and
  \<open>category_pics[category_name]\<close> raises \<open>KeyError\<close> for a name that is not a key.
\<close>

definition post_category :: "pystr \<Rightarrow> state \<Rightarrow> result" where
  "post_category category st =
     (let posts = BlogPost_filter_by_genre category st;
          category_name = (if category = lit ''Tech'' then lit ''Technology'' else category)
      in case map_of category_pics category_name of
           None \<Rightarrow> (Inl (KeyError category_name), st)
         | Some filepath \<Rightarrow>
             (Inr (Render ''post_category.html''
                    [(''posts'', TPosts posts),
                     (''category'', TStr category_name),
                     (''user'', TUser (current_user st)),
                     (''filepath'', TStr filepath),
                     (''year'', TNat (year st))]), st))"

section \<open>Example data\<close>

text \<open>
  The scenario of the spec (section 8): user A registered first and has id 1, user B has
  id 2, and one post titled Hello is stored. \<open>sum_kdf\<close> is a checksum that stands for the
  iterated hash in the examples, and \<open>scheme_URL\<close> a check of the scheme that stands for
  the \<open>URL()\<close> validator.
\<close>

definition sum_kdf :: kdf where
  "sum_kdf hmethod salt password = of_nat (sum_list (hmethod @ salt @ password))"

definition scheme_URL :: "pystr \<Rightarrow> bool" where
  "scheme_URL s = (take 8 s = lit ''https://'')"

definition user_A :: user where
  "user_A = \<lparr>u_id = 1, u_name = lit ''A'', u_email = lit ''a@x.com'',
             u_password = generate_password_hash sum_kdf (lit ''q1W2e3R4'') (lit ''password-of-A'')
                            (lit ''pbkdf2:sha256'')\<rparr>"

definition user_B :: user where
  "user_B = \<lparr>u_id = 2, u_name = lit ''B'', u_email = lit ''b@x.com'',
             u_password = generate_password_hash sum_kdf (lit ''z9Y8x7W6'') (lit ''password-of-B'')
                            (lit ''pbkdf2:sha256'')\<rparr>"

definition post_Hello :: blog_post where
  "post_Hello = \<lparr>p_id = 1, p_title = lit ''Hello'', p_subtitle = lit ''First post'',
                 p_date = lit ''11/04/2026'', p_body = lit ''<p>Hello, world</p>'',
                 p_img_url = lit ''https://example.com/hello.png'', p_author_id = None,
                 p_genre = lit ''Tech''\<rparr>"

definition state_AB :: "nat option \<Rightarrow> state" where
  "state_AB session =
     \<lparr>users = [user_A, user_B], blog_posts = [post_Hello], comments = [],
      session_user_id = session, flashes = [], year = 2026\<rparr>"


definition rq_register :: "pystr \<Rightarrow> pystr \<Rightarrow> pystr \<Rightarrow> register_form request" where
  "rq_register name email password =
     \<lparr>rq_method = POST, rq_csrf_ok = True,
      rq_form = \<lparr>rf_name = name, rf_email = email, rf_password = password\<rparr>\<rparr>"

definition rq_new_post :: "pystr \<Rightarrow> pystr \<Rightarrow> create_post_form request" where
  "rq_new_post title genre =
     \<lparr>rq_method = POST, rq_csrf_ok = True,
      rq_form = \<lparr>cf_title = title, cf_subtitle = lit ''A subtitle'', cf_genre = genre,
                 cf_img_url = lit ''https://example.com/pic.png'', cf_body = lit ''<p>Some text</p>''\<rparr>\<rparr>"

definition day_example :: date where
  "day_example = \<lparr>d_year = 2026, d_month = 11, d_day = 4\<rparr>"

section \<open>Auxiliary facts\<close>

subsection \<open>Keys and lookups\<close>

lemma fold_max_ge_init: "a \<le> fold max xs (a::nat)"
  by (induction xs arbitrary: a) (auto intro: order_trans[OF max.cobounded2])

lemma fold_max_ge_mem: "x \<in> set xs \<Longrightarrow> x \<le> fold max xs (a::nat)"
  by (induction xs arbitrary: a) (auto intro: order_trans[OF max.cobounded1 fold_max_ge_init])

lemma autoincrement_fresh: "i \<in> set keys \<Longrightarrow> i \<noteq> autoincrement keys"
  using fold_max_ge_mem[of i keys 0] by (auto simp: autoincrement_def)

lemma fold_max_le: "a \<le> b \<Longrightarrow> \<forall>x \<in> set xs. x \<le> b \<Longrightarrow> fold max xs a \<le> (b::nat)"
  by (induction xs arbitrary: a) auto

lemma autoincrement_below:
  assumes "\<forall>x \<in> set keys. x < 2 ^ 63 - 1"
  shows "autoincrement keys < 2 ^ 63"
proof -
  have "fold max keys 0 \<le> (2 ^ 63 - 2 :: nat)"
    using assms by (intro fold_max_le) auto
  then show ?thesis
    by (simp add: autoincrement_def)
qed

lemma find_append_first: "find P xs = Some x \<Longrightarrow> find P (xs @ ys) = Some x"
  by (induction xs) (auto split: if_splits)

lemma find_snoc_fresh: "\<forall>x \<in> set xs. \<not> P x \<Longrightarrow> P y \<Longrightarrow> find P (xs @ [y]) = Some y"
  by (induction xs) auto

lemma find_Some_if_exists: "\<exists>x \<in> set xs. P x \<Longrightarrow> \<exists>y. find P xs = Some y"
  by (cases "find P xs") (auto simp: find_None_iff)

lemma find_None_if_none: "\<forall>x \<in> set xs. \<not> P x \<Longrightarrow> find P xs = None"
  by (simp add: find_None_iff)

subsection \<open>Dates\<close>

lemma dec_digit: "n < 10 \<Longrightarrow> dec n = [48 + n]"
  by (simp add: dec.simps)

lemma dec_more: "10 \<le> n \<Longrightarrow> dec n = dec (n div 10) @ [48 + n mod 10]"
  by (subst dec.simps) simp

lemma pad2_digits: "n < 100 \<Longrightarrow> pad2 n = [48 + n div 10, 48 + n mod 10]"
  by (cases "n < 10") (simp_all add: pad2_def dec_digit dec_more)

lemma dec_year_digits:
  assumes "1000 \<le> y" and "y < 10000"
  shows "dec y = [48 + y div 1000, 48 + y div 100 mod 10, 48 + y div 10 mod 10, 48 + y mod 10]"
proof -
  have "dec (y div 1000) = [48 + y div 1000]"
    using assms by (intro dec_digit) simp
  moreover have "dec (y div 100) = dec (y div 100 div 10) @ [48 + y div 100 mod 10]"
    using assms by (intro dec_more) simp
  moreover have "dec (y div 10) = dec (y div 10 div 10) @ [48 + y div 10 mod 10]"
    using assms by (intro dec_more) simp
  moreover have "dec y = dec (y div 10) @ [48 + y mod 10]"
    using assms by (intro dec_more) simp
  moreover have "y div 100 div 10 = y div 1000" "y div 10 div 10 = y div 100"
    by (simp_all add: div_mult2_eq [symmetric])
  ultimately show ?thesis by simp
qed

lemma strftime_mdY_digits:
  assumes "d_month d < 100" and "d_day d < 100" and "1000 \<le> d_year d" and "d_year d < 10000"
  shows "strftime_mdY d =
           [48 + d_month d div 10, 48 + d_month d mod 10, 47,
            48 + d_day d div 10, 48 + d_day d mod 10, 47,
            48 + d_year d div 1000, 48 + d_year d div 100 mod 10,
            48 + d_year d div 10 mod 10, 48 + d_year d mod 10]"
  using assms by (simp add: strftime_mdY_def pad2_digits dec_year_digits)

subsection \<open>Session\<close>

lemma flashes_flash: "flashes (flash m st) = flashes st @ [(''message'', m)]"
  by (simp add: flash_def)

lemma session_flash: "session_user_id (flash m st) = session_user_id st"
  by (simp add: flash_def)


lemma current_user_state_AB:
  "current_user (state_AB None) = Anonymous"
  "current_user (state_AB (Some 1)) = Authenticated user_A"
  "current_user (state_AB (Some 2)) = Authenticated user_B"
  by (simp_all add: current_user_def load_user_def User_query_get_def state_AB_def user_A_def user_B_def)

subsection \<open>Forms\<close>

lemma DataRequired_head: "\<not> isspace c \<Longrightarrow> \<not> isspace (last (c # cs)) \<Longrightarrow> DataRequired (c # cs)"
  by (cases "rev cs") (auto simp: DataRequired_def strip_def)

subsection \<open>Credentials\<close>

lemma length_hex: "length (hex w) = 64"
  by (simp add: hex_def)

lemma pbkdf2_no_dollar: "dollar \<notin> set (lit ''pbkdf2:sha256'')"
  by (simp add: lit_def dollar_def)

lemma SALT_CHARS_no_dollar: "dollar \<notin> set SALT_CHARS"
  by (simp add: SALT_CHARS_def lit_def dollar_def)

lemma gen_salt_no_dollar: "gen_salt n salt \<Longrightarrow> dollar \<notin> set salt"
  using SALT_CHARS_no_dollar by (auto simp: gen_salt_def)

lemma split1_at: "c \<notin> set xs \<Longrightarrow> split1 c (xs @ c # ys) = (xs, ys)"
  by (induction xs) (auto simp: split1_def)

lemma count_generate: "2 \<le> count_list (generate_password_hash kdf salt password hmethod) dollar"
  by (simp add: generate_password_hash_def)

lemma check_generate:
  assumes "dollar \<notin> set hmethod" and "dollar \<notin> set salt"
  shows "check_password_hash kdf (generate_password_hash kdf salt password hmethod) password"
proof -
  have "split1 dollar (generate_password_hash kdf salt password hmethod)
          = (hmethod, salt @ dollar # hex (kdf hmethod salt password))"
    using assms(1) by (simp add: generate_password_hash_def split1_at)
  moreover have "split1 dollar (salt @ dollar # hex (kdf hmethod salt password))
          = (salt, hex (kdf hmethod salt password))"
    using assms(2) by (simp add: split1_at)
  moreover have "\<not> count_list (generate_password_hash kdf salt password hmethod) dollar < 2"
    using count_generate [of kdf salt password hmethod] by simp
  ultimately show ?thesis
    by (simp add: check_password_hash_def)
qed

lemma generate_salt_inj:
  assumes "length salt1 = length salt2"
      and "generate_password_hash kdf salt1 password hmethod
             = generate_password_hash kdf salt2 password hmethod"
  shows "salt1 = salt2"
  using assms by (simp add: generate_password_hash_def)

lemma length_generate:
  "length (generate_password_hash kdf salt password hmethod) = length hmethod + length salt + 66"
  by (simp add: generate_password_hash_def length_hex)

lemma gen_salt_examples:
  "gen_salt 8 (lit ''q1W2e3R4'')" "gen_salt 8 (lit ''z9Y8x7W6'')"
  by (simp_all add: gen_salt_def SALT_CHARS_def lit_def)


subsection \<open>The decorator\<close>

lemma admin_only_forbidden:
  "\<forall>u. current_user st = Authenticated u \<longrightarrow> u_id u \<noteq> 1 \<Longrightarrow>
   admin_only function st = (Inr (Aborted 403), st)"
  by (cases "current_user st") (auto simp: admin_only_def attr_id_def abort_def Let_def)

lemma admin_only_pass:
  "current_user st = Authenticated u \<Longrightarrow> u_id u = 1 \<Longrightarrow> fst (function st) \<noteq> Inl AttributeError
   \<Longrightarrow> admin_only function st = function st"
  by (auto simp: admin_only_def attr_id_def Let_def split: sum.splits exn.splits)

lemma new_post_no_AttributeError: "fst (new_post URL today rq st) \<noteq> Inl AttributeError"
  by (auto simp: new_post_def Let_def add_commit_post_def split: sum.splits if_splits)

lemma delete_post_no_AttributeError: "fst (delete_post post_id st) \<noteq> Inl AttributeError"
  by (auto simp: delete_post_def BlogPost_query_get_def delete_commit_post_def
           split: sum.splits option.splits if_splits)

subsection \<open>The login and register views, branch by branch\<close>


lemma register_invalid:
  "\<not> validate_on_submit RegisterForm_validate rq \<Longrightarrow>
   register kdf salt rq st =
     (Inr (Render ''register.html''
            [(''year'', TNat (year st)),
             (''form'', TRegisterForm (rq_form rq)),
             (''logged_in'', TBool (is_authenticated (current_user st))),
             (''user'', TUser (current_user st))]), st)"
  by (simp add: register_def Let_def)

lemma register_duplicate:
  "validate_on_submit RegisterForm_validate rq \<Longrightarrow>
   User_filter_by_email_first (rf_email (rq_form rq)) st = Some u \<Longrightarrow>
   register kdf salt rq st =
     (Inr (Redirect ''login''),
      flash ''This email is already registered in our database. Try logging in instead.'' st)"
  by (simp add: register_def Let_def)

lemma register_fresh:
  "validate_on_submit RegisterForm_validate rq \<Longrightarrow>
   User_filter_by_email_first (rf_email (rq_form rq)) st = None \<Longrightarrow>
   register kdf salt rq st =
     (Inr (Redirect ''home''),
      login_user
        \<lparr>u_id = autoincrement (map u_id (users st)), u_name = rf_name (rq_form rq),
         u_email = rf_email (rq_form rq),
         u_password = generate_password_hash kdf salt (rf_password (rq_form rq)) (lit ''pbkdf2:sha256'')\<rparr>
        (st\<lparr>users := users st @
           [\<lparr>u_id = autoincrement (map u_id (users st)), u_name = rf_name (rq_form rq),
             u_email = rf_email (rq_form rq),
             u_password = generate_password_hash kdf salt (rf_password (rq_form rq)) (lit ''pbkdf2:sha256'')\<rparr>]\<rparr>))"
  by (simp add: register_def Let_def add_commit_user_def)

lemma current_user_after_insert:
  assumes "u_id row = autoincrement (map u_id (users st))"
  shows "current_user (login_user row (st\<lparr>users := users st @ [row]\<rparr>)) = Authenticated row"
proof -
  have "\<forall>x \<in> set (users st). u_id x \<noteq> u_id row"
    using assms autoincrement_fresh [of _ "map u_id (users st)"] by auto
  then have "find (\<lambda>u. u_id u = u_id row) (users st @ [row]) = Some row"
    by (intro find_snoc_fresh) auto
  then show ?thesis
    by (simp add: current_user_def load_user_def User_query_get_def login_user_def)
qed

lemma validate_register_example:
  "validate_on_submit RegisterForm_validate (rq_register (lit ''C'') (lit ''b@x.com'') (lit ''password-of-C''))"
  "validate_on_submit RegisterForm_validate (rq_register (lit ''C'') (lit ''c@x.com'') (lit ''password-of-C''))"
  by (simp_all add: validate_on_submit_def RegisterForm_validate_def rq_register_def lit_def
        DataRequired_head isspace_def Length_def)

subsection \<open>The post views, branch by branch\<close>

lemma validate_new_post_example:
  "validate_on_submit (CreatePostForm_validate scheme_URL) (rq_new_post (lit ''Hello'') (lit ''Tech''))"
  "validate_on_submit (CreatePostForm_validate scheme_URL) (rq_new_post (lit ''World'') (lit ''Education''))"
  by (simp_all add: validate_on_submit_def CreatePostForm_validate_def rq_new_post_def lit_def
        DataRequired_head isspace_def genre_choices_def scheme_URL_def)

lemma new_post_duplicate:
  "validate_on_submit (CreatePostForm_validate URL) rq \<Longrightarrow>
   \<exists>q \<in> set (blog_posts st). p_title q = cf_title (rq_form rq) \<Longrightarrow>
   new_post URL today rq st = (Inl IntegrityError, st)"
  by (simp add: new_post_def Let_def add_commit_post_def)

lemma new_post_fresh:
  "validate_on_submit (CreatePostForm_validate URL) rq \<Longrightarrow>
   \<forall>q \<in> set (blog_posts st). p_title q \<noteq> cf_title (rq_form rq) \<Longrightarrow>
   new_post URL today rq st =
     (Inr (Redirect ''home''),
      st\<lparr>blog_posts := blog_posts st @
           [\<lparr>p_id = autoincrement (map p_id (blog_posts st)), p_title = cf_title (rq_form rq),
             p_subtitle = cf_subtitle (rq_form rq), p_date = strftime_mdY today,
             p_body = cf_body (rq_form rq), p_img_url = cf_img_url (rq_form rq),
             p_author_id = None, p_genre = cf_genre (rq_form rq)\<rparr>]\<rparr>)"
  by (auto simp: new_post_def Let_def add_commit_post_def)

section \<open>The admin guard\<close>

text \<open>
  C1: For every identity that is anonymous or whose user id is not 1, a view wrapped in
  \<open>admin_only\<close> answers with the fixed 403 response whatever the wrapped function is (so
  the function is not called), the state (tables, session, flashes) is the one before the
  request, and no exception leaves the wrapper. For the identity with id 1 the wrapped
  views \<open>new_post\<close> and \<open>delete_post\<close> run and their outcome is returned unchanged.
\<close>

theorem admin_only_guard:
  "((\<forall>u. current_user st = Authenticated u \<longrightarrow> u_id u \<noteq> 1) \<longrightarrow>
      admin_only function st = (Inr (Aborted 403), st))
   \<and> ((\<exists>u. current_user st = Authenticated u \<and> u_id u = 1) \<longrightarrow>
      admin_only (new_post URL today rq) st = new_post URL today rq st
      \<and> admin_only (delete_post post_id) st = delete_post post_id st)"
  using admin_only_forbidden admin_only_pass new_post_no_AttributeError delete_post_no_AttributeError
  by blast

theorem admin_only_guard_witness:
  "admin_only (delete_post 1) (state_AB None) = (Inr (Aborted 403), state_AB None)
   \<and> admin_only (delete_post 1) (state_AB (Some 2)) = (Inr (Aborted 403), state_AB (Some 2))
   \<and> admin_only (delete_post 1) (state_AB (Some 1)) = delete_post 1 (state_AB (Some 1))"
proof -
  have anon: "\<forall>u. current_user (state_AB None) = Authenticated u \<longrightarrow> u_id u \<noteq> 1"
    by (simp add: current_user_state_AB)
  have other: "\<forall>u. current_user (state_AB (Some 2)) = Authenticated u \<longrightarrow> u_id u \<noteq> 1"
    by (simp add: current_user_state_AB user_B_def)
  have "u_id user_A = 1"
    by (simp add: user_A_def)
  with current_user_state_AB(2)
  have admin: "\<exists>u. current_user (state_AB (Some 1)) = Authenticated u \<and> u_id u = 1"
    by blast
  show ?thesis
    using admin_only_guard [of "state_AB None" "delete_post 1"] anon
          admin_only_guard [of "state_AB (Some 2)" "delete_post 1"] other
          admin_only_guard [of "state_AB (Some 1)" _ _ _ _ 1] admin
    by blast
qed

section \<open>Login\<close>



section \<open>Registration\<close>

text \<open>
  C3: For every registration whose email equals the email of some stored user, \<open>register\<close>
  leaves the user table, the post table and the session as they were; and a registration
  that passes the form's validation is answered with a redirect to the login page, with
  exactly one message added to the queued flashes: that the email is already registered.
\<close>

theorem register_existing_email:
  assumes "\<exists>u \<in> set (users st). u_email u = rf_email (rq_form rq)"
  shows "users (snd (register kdf salt rq st)) = users st
         \<and> blog_posts (snd (register kdf salt rq st)) = blog_posts st
         \<and> session_user_id (snd (register kdf salt rq st)) = session_user_id st
         \<and> (validate_on_submit RegisterForm_validate rq \<longrightarrow>
              register kdf salt rq st =
                (Inr (Redirect ''login''),
                 flash ''This email is already registered in our database. Try logging in instead.'' st)
              \<and> fst (register kdf salt rq st) = Inr (Redirect ''login'')
              \<and> flashes (snd (register kdf salt rq st))
                  = flashes st @
                    [(''message'',
                      ''This email is already registered in our database. Try logging in instead.'')])"
proof (cases "validate_on_submit RegisterForm_validate rq")
  case False
  then show ?thesis by (simp add: register_invalid)
next
  case True
  from assms obtain u where "User_filter_by_email_first (rf_email (rq_form rq)) st = Some u"
    unfolding User_filter_by_email_first_def
    using find_Some_if_exists [of "users st" "\<lambda>u. u_email u = rf_email (rq_form rq)"]
    by blast
  with True have r: "register kdf salt rq st =
                (Inr (Redirect ''login''),
                 flash ''This email is already registered in our database. Try logging in instead.'' st)"
    by (simp add: register_duplicate)
  have "users (flash ''This email is already registered in our database. Try logging in instead.'' st)
          = users st"
       "blog_posts (flash ''This email is already registered in our database. Try logging in instead.'' st)
          = blog_posts st"
    by (simp_all add: flash_def)
  then show ?thesis
    using r flashes_flash session_flash by simp
qed

theorem register_existing_email_witness:
  "(\<exists>u \<in> set (users (state_AB None)). u_email u = lit ''b@x.com'')
   \<and> users (snd (register sum_kdf (lit ''k5L6m7N8'')
                  (rq_register (lit ''C'') (lit ''b@x.com'') (lit ''password-of-C'')) (state_AB None)))
       = [user_A, user_B]
   \<and> fst (register sum_kdf (lit ''k5L6m7N8'')
                  (rq_register (lit ''C'') (lit ''b@x.com'') (lit ''password-of-C'')) (state_AB None))
       = Inr (Redirect ''login'')
   \<and> flashes (snd (register sum_kdf (lit ''k5L6m7N8'')
                  (rq_register (lit ''C'') (lit ''b@x.com'') (lit ''password-of-C'')) (state_AB None)))
       = [(''message'', ''This email is already registered in our database. Try logging in instead.'')]
   \<and> session_user_id (snd (register sum_kdf (lit ''k5L6m7N8'')
                  (rq_register (lit ''C'') (lit ''b@x.com'') (lit ''password-of-C'')) (state_AB None)))
       = None"
proof -
  have e: "\<exists>u \<in> set (users (state_AB None)).
             u_email u = rf_email (rq_form (rq_register (lit ''C'') (lit ''b@x.com'') (lit ''password-of-C'')))"
    by (simp add: state_AB_def user_B_def rq_register_def)
  have e': "\<exists>u \<in> set (users (state_AB None)). u_email u = lit ''b@x.com''"
    by (simp add: state_AB_def user_B_def)
  have u: "users (state_AB None) = [user_A, user_B]" "flashes (state_AB None) = []"
          "session_user_id (state_AB None) = None"
    by (simp_all add: state_AB_def)
  have "users (snd (register sum_kdf (lit ''k5L6m7N8'')
                  (rq_register (lit ''C'') (lit ''b@x.com'') (lit ''password-of-C'')) (state_AB None)))
          = [user_A, user_B]"
       "fst (register sum_kdf (lit ''k5L6m7N8'')
                  (rq_register (lit ''C'') (lit ''b@x.com'') (lit ''password-of-C'')) (state_AB None))
          = Inr (Redirect ''login'')"
       "flashes (snd (register sum_kdf (lit ''k5L6m7N8'')
                  (rq_register (lit ''C'') (lit ''b@x.com'') (lit ''password-of-C'')) (state_AB None)))
          = [] @ [(''message'', ''This email is already registered in our database. Try logging in instead.'')]"
       "session_user_id (snd (register sum_kdf (lit ''k5L6m7N8'')
                  (rq_register (lit ''C'') (lit ''b@x.com'') (lit ''password-of-C'')) (state_AB None)))
          = None"
    using register_existing_email [OF e, of sum_kdf "lit ''k5L6m7N8''"] validate_register_example(1)
    unfolding u by blast+
  with e' show ?thesis
    by simp
qed

text \<open>
  C4: For every registration whose form validates and whose email matches no stored
  user, \<open>register\<close> appends exactly one user row, with a key no stored user has and the
  submitted name and email; the stored password is the salted hash that
  \<open>generate_password_hash\<close> returns, which differs from the submitted password and
  which \<open>check_password_hash\<close> accepts for it; the session holds the new key, and
  \<open>current_user\<close> is the new user right after, with a redirect to home as the response.
\<close>

theorem register_fresh_email:
  assumes "validate_on_submit RegisterForm_validate rq"
      and "\<forall>u \<in> set (users st). u_email u \<noteq> rf_email (rq_form rq)"
      and "gen_salt 8 salt"
  shows "\<exists>new_user.
           users (snd (register kdf salt rq st)) = users st @ [new_user]
           \<and> u_id new_user \<notin> u_id ` set (users st)
           \<and> u_name new_user = rf_name (rq_form rq)
           \<and> u_email new_user = rf_email (rq_form rq)
           \<and> u_password new_user
               = generate_password_hash kdf salt (rf_password (rq_form rq)) (lit ''pbkdf2:sha256'')
           \<and> u_password new_user \<noteq> rf_password (rq_form rq)
           \<and> check_password_hash kdf (u_password new_user) (rf_password (rq_form rq))
           \<and> session_user_id (snd (register kdf salt rq st)) = Some (u_id new_user)
           \<and> current_user (snd (register kdf salt rq st)) = Authenticated new_user
           \<and> fst (register kdf salt rq st) = Inr (Redirect ''home'')"
proof -
  let ?pw = "rf_password (rq_form rq)"
  let ?row = "\<lparr>u_id = autoincrement (map u_id (users st)), u_name = rf_name (rq_form rq),
               u_email = rf_email (rq_form rq),
               u_password = generate_password_hash kdf salt ?pw (lit ''pbkdf2:sha256'')\<rparr>"
  have none: "User_filter_by_email_first (rf_email (rq_form rq)) st = None"
    using assms(2) by (simp add: User_filter_by_email_first_def find_None_iff)
  have r: "register kdf salt rq st
             = (Inr (Redirect ''home''), login_user ?row (st\<lparr>users := users st @ [?row]\<rparr>))"
    using register_fresh [OF assms(1) none] .
  have fresh: "u_id ?row \<notin> u_id ` set (users st)"
    using autoincrement_fresh [of _ "map u_id (users st)"] by auto
  have "length ?pw \<le> 25"
    using assms(1) by (simp add: validate_on_submit_def RegisterForm_validate_def Length_def)
  moreover have "length (u_password ?row) = length (lit ''pbkdf2:sha256'') + length salt + 66"
    by (simp add: length_generate)
  ultimately have raw: "u_password ?row \<noteq> ?pw"
    by auto
  have ok: "check_password_hash kdf (u_password ?row) ?pw"
    using check_generate [OF pbkdf2_no_dollar gen_salt_no_dollar [OF assms(3)]] by simp
  have cu: "current_user (snd (register kdf salt rq st)) = Authenticated ?row"
    using current_user_after_insert [of ?row st] by (simp add: r)
  have "users (snd (register kdf salt rq st)) = users st @ [?row]"
       "session_user_id (snd (register kdf salt rq st)) = Some (u_id ?row)"
       "fst (register kdf salt rq st) = Inr (Redirect ''home'')"
    by (simp_all add: r login_user_def)
  with fresh raw ok cu show ?thesis
    by (intro exI [of _ ?row]) simp
qed

theorem register_fresh_email_witness:
  "validate_on_submit RegisterForm_validate (rq_register (lit ''C'') (lit ''c@x.com'') (lit ''password-of-C''))
   \<and> lit ''c@x.com'' \<notin> set (map u_email (users (state_AB None)))
   \<and> gen_salt 8 (lit ''k5L6m7N8'')
   \<and> (\<exists>new_user.
         users (snd (register sum_kdf (lit ''k5L6m7N8'')
                  (rq_register (lit ''C'') (lit ''c@x.com'') (lit ''password-of-C'')) (state_AB None)))
           = [user_A, user_B, new_user]
         \<and> u_email new_user = lit ''c@x.com''
         \<and> u_password new_user \<noteq> lit ''password-of-C''
         \<and> current_user (snd (register sum_kdf (lit ''k5L6m7N8'')
                  (rq_register (lit ''C'') (lit ''c@x.com'') (lit ''password-of-C'')) (state_AB None)))
           = Authenticated new_user)"
proof -
  have fresh: "\<forall>u \<in> set (users (state_AB None)).
                 u_email u \<noteq> rf_email (rq_form (rq_register (lit ''C'') (lit ''c@x.com'') (lit ''password-of-C'')))"
    by (simp add: state_AB_def user_A_def user_B_def rq_register_def lit_def)
  have fresh': "lit ''c@x.com'' \<notin> set (map u_email (users (state_AB None)))"
    by (simp add: state_AB_def user_A_def user_B_def lit_def)
  have salt: "gen_salt 8 (lit ''k5L6m7N8'')"
    by (simp add: gen_salt_def SALT_CHARS_def lit_def)
  have f: "rf_email (rq_form (rq_register (lit ''C'') (lit ''c@x.com'') (lit ''password-of-C''))) = lit ''c@x.com''"
          "rf_password (rq_form (rq_register (lit ''C'') (lit ''c@x.com'') (lit ''password-of-C''))) = lit ''password-of-C''"
          "users (state_AB None) = [user_A, user_B]"
    by (simp_all add: rq_register_def state_AB_def)
  from register_fresh_email [OF validate_register_example(2) fresh salt, of sum_kdf]
  obtain new_user where
    "users (snd (register sum_kdf (lit ''k5L6m7N8'')
                  (rq_register (lit ''C'') (lit ''c@x.com'') (lit ''password-of-C'')) (state_AB None)))
           = [user_A, user_B, new_user]"
    "u_email new_user = lit ''c@x.com''"
    "u_password new_user \<noteq> lit ''password-of-C''"
    "current_user (snd (register sum_kdf (lit ''k5L6m7N8'')
                  (rq_register (lit ''C'') (lit ''c@x.com'') (lit ''password-of-C'')) (state_AB None)))
           = Authenticated new_user"
    unfolding f by auto
  with validate_register_example(2) fresh' salt show ?thesis
    by blast
qed

text \<open>
  C10: A registration whose password has fewer than 7 or more than 25 characters fails the
  form's validation: the state is the one before the request (no user row, no session) and
  the register page is rendered again. Hence whenever \<open>register\<close> adds a user or changes
  the session, the password has between 7 and 25 characters.
\<close>

theorem register_password_length:
  "(length (rf_password (rq_form rq)) < 7 \<or> 25 < length (rf_password (rq_form rq)) \<longrightarrow>
      \<not> validate_on_submit RegisterForm_validate rq
      \<and> snd (register kdf salt rq st) = st
      \<and> (\<exists>ctx. fst (register kdf salt rq st) = Inr (Render ''register.html'' ctx)))
   \<and> (users (snd (register kdf salt rq st)) \<noteq> users st
        \<or> session_user_id (snd (register kdf salt rq st)) \<noteq> session_user_id st \<longrightarrow>
      7 \<le> length (rf_password (rq_form rq)) \<and> length (rf_password (rq_form rq)) \<le> 25)"
proof -
  have inv: "\<not> validate_on_submit RegisterForm_validate rq"
    if "length (rf_password (rq_form rq)) < 7 \<or> 25 < length (rf_password (rq_form rq))"
    using that by (auto simp: validate_on_submit_def RegisterForm_validate_def Length_def)
  have same: "snd (register kdf salt rq st) = st
              \<and> (\<exists>ctx. fst (register kdf salt rq st) = Inr (Render ''register.html'' ctx))"
    if "\<not> validate_on_submit RegisterForm_validate rq"
    using that by (simp add: register_invalid)
  from inv same show ?thesis
    by (metis not_le_imp_less)
qed

theorem register_password_length_witness:
  "length (lit ''short'') < 7
   \<and> snd (register sum_kdf (lit ''k5L6m7N8'')
            (rq_register (lit ''C'') (lit ''c@x.com'') (lit ''short'')) (state_AB None)) = state_AB None
   \<and> users (snd (register sum_kdf (lit ''k5L6m7N8'')
            (rq_register (lit ''C'') (lit ''c@x.com'') (lit ''password-of-C'')) (state_AB None)))
       \<noteq> users (state_AB None)
   \<and> 7 \<le> length (lit ''password-of-C'') \<and> length (lit ''password-of-C'') \<le> 25"
proof -
  have short: "length (rf_password (rq_form (rq_register (lit ''C'') (lit ''c@x.com'') (lit ''short'')))) < 7"
    by (simp add: rq_register_def lit_def)
  have none: "User_filter_by_email_first
                (rf_email (rq_form (rq_register (lit ''C'') (lit ''c@x.com'') (lit ''password-of-C''))))
                (state_AB None) = None"
    by (simp add: User_filter_by_email_first_def rq_register_def state_AB_def user_A_def user_B_def lit_def)
  have grown: "users (snd (register sum_kdf (lit ''k5L6m7N8'')
            (rq_register (lit ''C'') (lit ''c@x.com'') (lit ''password-of-C'')) (state_AB None)))
       \<noteq> users (state_AB None)"
    by (simp add: register_fresh [OF validate_register_example(2) none] login_user_def)
  have pw: "rf_password (rq_form (rq_register (lit ''C'') (lit ''c@x.com'') (lit ''password-of-C'')))
              = lit ''password-of-C''"
    by (simp add: rq_register_def)
  have "length (lit ''short'') < 7"
    by (simp add: lit_def)
  then show ?thesis
    using register_password_length [of "rq_register (lit ''C'') (lit ''c@x.com'') (lit ''short'')"
            sum_kdf "lit ''k5L6m7N8''" "state_AB None"] short
          register_password_length [of "rq_register (lit ''C'') (lit ''c@x.com'') (lit ''password-of-C'')"
            sum_kdf "lit ''k5L6m7N8''" "state_AB None"] grown pw
    by metis
qed

section \<open>Posts\<close>

text \<open>
  C5: Deleting a post id that is already deleted should not raise. Here the admin deletes
  post 1 of the example state twice: the first request removes the post and redirects to
  home; the second finds no row, hands \<open>None\<close> to \<open>db.session.delete\<close> and leaves the
  view with \<open>UnmappedInstanceError\<close>, which \<open>admin_only\<close> does not catch. The store is
  the same before and after the second request.
\<close>

theorem delete_post_twice_raises:
  "admin_only (delete_post 1) (state_AB (Some 1))
     = (Inr (Redirect ''home''), (state_AB (Some 1))\<lparr>blog_posts := []\<rparr>)
   \<and> admin_only (delete_post 1) ((state_AB (Some 1))\<lparr>blog_posts := []\<rparr>)
     = (Inl UnmappedInstanceError, (state_AB (Some 1))\<lparr>blog_posts := []\<rparr>)"
  by (simp add: admin_only_def attr_id_def current_user_def load_user_def User_query_get_def
        delete_post_def BlogPost_query_get_def delete_commit_post_def Let_def
        state_AB_def user_A_def user_B_def post_Hello_def)

text \<open>
  C6: An attempt to store a second post with a stored title should end in a flash message
  and a redirect to a recovery page. Here the admin submits a valid form whose title is the
  stored Hello: \<open>new_post\<close> makes no check before the insert, the unique constraint of the
  \<open>title\<close> column makes the commit raise \<open>IntegrityError\<close>, and nothing handles it: no
  message is queued and no redirect is sent. No second post is stored.
\<close>

theorem new_post_duplicate_title_raises:
  "admin_only (new_post scheme_URL day_example (rq_new_post (lit ''Hello'') (lit ''Tech''))) (state_AB (Some 1))
     = (Inl IntegrityError, state_AB (Some 1))
   \<and> flashes (state_AB (Some 1)) = []
   \<and> blog_posts (state_AB (Some 1)) = [post_Hello]"
proof -
  have "\<exists>q \<in> set (blog_posts (state_AB (Some 1))).
          p_title q = cf_title (rq_form (rq_new_post (lit ''Hello'') (lit ''Tech'')))"
    by (simp add: state_AB_def post_Hello_def rq_new_post_def)
  then have "new_post scheme_URL day_example (rq_new_post (lit ''Hello'') (lit ''Tech'')) (state_AB (Some 1))
               = (Inl IntegrityError, state_AB (Some 1))"
    using new_post_duplicate [OF validate_new_post_example(1)] by blast
  moreover have "u_id user_A = 1"
    by (simp add: user_A_def)
  ultimately have "admin_only (new_post scheme_URL day_example (rq_new_post (lit ''Hello'') (lit ''Tech'')))
                     (state_AB (Some 1)) = (Inl IntegrityError, state_AB (Some 1))"
    using admin_only_pass [OF current_user_state_AB(2)] by simp
  then show ?thesis
    by (simp add: state_AB_def)
qed

text \<open>
  C7: For every post created through \<open>new_post\<close> (a form that validates, so its genre is
  one of the four choices, a title that no stored post has, and stored keys below the
  largest SQLite integer), the post is appended with a key that no stored post has, and
  \<open>show_post\<close> on that key hands that very post to the template, right after the creation
  and also after any further rows have been stored behind it; the rows stored before are
  still the ones their keys fetch. The title, subtitle, genre, body and image URL of the
  post are the submitted ones. Its date is the creation day as \<open>strftime\<close> formats it: for
  a calendar day of a four-digit year, two digits of the month, a slash, two digits of the
  day, a slash and the four digits of the year.
\<close>

theorem new_post_show_post_roundtrip:
  assumes "validate_on_submit (CreatePostForm_validate URL) rq"
      and "\<forall>q \<in> set (blog_posts st). p_title q \<noteq> cf_title (rq_form rq)"
      and "\<forall>q \<in> set (blog_posts st). p_id q < 2 ^ 63 - 1"
  shows "\<exists>post st'.
           new_post URL today rq st = (Inr (Redirect ''home''), st')
           \<and> blog_posts st' = blog_posts st @ [post]
           \<and> p_id post \<notin> p_id ` set (blog_posts st)
           \<and> show_post (p_id post) st'
               = (Inr (Render ''post.html'' [(''post'', TPost (Some post)), (''year'', TNat (year st'))]), st')
           \<and> (\<forall>later.
                 show_post (p_id post) (st'\<lparr>blog_posts := blog_posts st' @ later\<rparr>)
                   = (Inr (Render ''post.html'' [(''post'', TPost (Some post)), (''year'', TNat (year st'))]),
                      st'\<lparr>blog_posts := blog_posts st' @ later\<rparr>))
           \<and> (\<forall>i q. show_post i st
                        = (Inr (Render ''post.html'' [(''post'', TPost (Some q)), (''year'', TNat (year st))]), st)
                    \<longrightarrow> show_post i st'
                        = (Inr (Render ''post.html'' [(''post'', TPost (Some q)), (''year'', TNat (year st'))]), st'))
           \<and> p_title post = cf_title (rq_form rq)
           \<and> p_subtitle post = cf_subtitle (rq_form rq)
           \<and> p_genre post = cf_genre (rq_form rq)
           \<and> p_genre post \<in> set genre_choices
           \<and> p_body post = cf_body (rq_form rq)
           \<and> p_img_url post = cf_img_url (rq_form rq)
           \<and> p_date post = strftime_mdY today
           \<and> (1 \<le> d_month today \<and> d_month today \<le> 12 \<and> 1 \<le> d_day today \<and> d_day today \<le> 31
                \<and> 1000 \<le> d_year today \<and> d_year today \<le> 9999 \<longrightarrow>
              p_date post =
                [48 + d_month today div 10, 48 + d_month today mod 10, 47,
                 48 + d_day today div 10, 48 + d_day today mod 10, 47,
                 48 + d_year today div 1000, 48 + d_year today div 100 mod 10,
                 48 + d_year today div 10 mod 10, 48 + d_year today mod 10])"
proof -
  let ?post = "\<lparr>p_id = autoincrement (map p_id (blog_posts st)), p_title = cf_title (rq_form rq),
             p_subtitle = cf_subtitle (rq_form rq), p_date = strftime_mdY today,
             p_body = cf_body (rq_form rq), p_img_url = cf_img_url (rq_form rq),
             p_author_id = None, p_genre = cf_genre (rq_form rq)\<rparr>"
  let ?st' = "st\<lparr>blog_posts := blog_posts st @ [?post]\<rparr>"
  have r: "new_post URL today rq st = (Inr (Redirect ''home''), ?st')"
    using new_post_fresh [OF assms(1,2)] .
  have key: "\<not> 2 ^ 63 \<le> p_id ?post"
    using autoincrement_below [of "map p_id (blog_posts st)"] assms(3) by simp
  have fresh: "\<forall>x \<in> set (blog_posts st). p_id x \<noteq> p_id ?post"
    using autoincrement_fresh [of _ "map p_id (blog_posts st)"] by auto
  then have f: "find (\<lambda>p. p_id p = p_id ?post) (blog_posts st @ [?post]) = Some ?post"
    by (intro find_snoc_fresh) auto
  have s: "show_post (p_id ?post) ?st'
               = (Inr (Render ''post.html'' [(''post'', TPost (Some ?post)), (''year'', TNat (year ?st'))]), ?st')"
    using f key by (simp add: show_post_def BlogPost_query_get_def)
  have l: "show_post (p_id ?post) (?st'\<lparr>blog_posts := blog_posts ?st' @ later\<rparr>)
             = (Inr (Render ''post.html'' [(''post'', TPost (Some ?post)), (''year'', TNat (year ?st'))]),
                ?st'\<lparr>blog_posts := blog_posts ?st' @ later\<rparr>)" for later
    using find_append_first [OF f, of later] key by (simp add: show_post_def BlogPost_query_get_def)
  have e: "show_post i ?st'
             = (Inr (Render ''post.html'' [(''post'', TPost (Some q)), (''year'', TNat (year ?st'))]), ?st')"
    if "show_post i st
          = (Inr (Render ''post.html'' [(''post'', TPost (Some q)), (''year'', TNat (year st))]), st)"
    for i q
  proof -
    from that have "\<not> 2 ^ 63 \<le> i" and "find (\<lambda>p. p_id p = i) (blog_posts st) = Some q"
      by (auto simp: show_post_def BlogPost_query_get_def split: if_splits)
    then show ?thesis
      using find_append_first [of "\<lambda>p. p_id p = i" "blog_posts st" q "[?post]"]
      by (simp add: show_post_def BlogPost_query_get_def)
  qed
  have g: "p_genre ?post \<in> set genre_choices"
    using assms(1) by (simp add: validate_on_submit_def CreatePostForm_validate_def)
  have d: "p_date ?post =
                [48 + d_month today div 10, 48 + d_month today mod 10, 47,
                 48 + d_day today div 10, 48 + d_day today mod 10, 47,
                 48 + d_year today div 1000, 48 + d_year today div 100 mod 10,
                 48 + d_year today div 10 mod 10, 48 + d_year today mod 10]"
    if "1 \<le> d_month today \<and> d_month today \<le> 12 \<and> 1 \<le> d_day today \<and> d_day today \<le> 31
                \<and> 1000 \<le> d_year today \<and> d_year today \<le> 9999"
    using that strftime_mdY_digits [of today] by simp
  have n: "p_id ?post \<notin> p_id ` set (blog_posts st)"
    using fresh by auto
  show ?thesis
  proof (intro exI [of _ ?post] exI [of _ ?st'] conjI)
    show "\<forall>later. show_post (p_id ?post) (?st'\<lparr>blog_posts := blog_posts ?st' @ later\<rparr>)
             = (Inr (Render ''post.html'' [(''post'', TPost (Some ?post)), (''year'', TNat (year ?st'))]),
                ?st'\<lparr>blog_posts := blog_posts ?st' @ later\<rparr>)"
      using l by blast
    show "\<forall>i q. show_post i st
                    = (Inr (Render ''post.html'' [(''post'', TPost (Some q)), (''year'', TNat (year st))]), st)
                \<longrightarrow> show_post i ?st'
                    = (Inr (Render ''post.html'' [(''post'', TPost (Some q)), (''year'', TNat (year ?st'))]), ?st')"
      using e by blast
    show "1 \<le> d_month today \<and> d_month today \<le> 12 \<and> 1 \<le> d_day today \<and> d_day today \<le> 31
                \<and> 1000 \<le> d_year today \<and> d_year today \<le> 9999 \<longrightarrow>
              p_date ?post =
                [48 + d_month today div 10, 48 + d_month today mod 10, 47,
                 48 + d_day today div 10, 48 + d_day today mod 10, 47,
                 48 + d_year today div 1000, 48 + d_year today div 100 mod 10,
                 48 + d_year today div 10 mod 10, 48 + d_year today mod 10]"
      using d by blast
  qed (use r s g n in simp_all)
qed

theorem new_post_show_post_roundtrip_witness:
  "validate_on_submit (CreatePostForm_validate scheme_URL) (rq_new_post (lit ''World'') (lit ''Education''))
   \<and> lit ''World'' \<notin> set (map p_title (blog_posts (state_AB (Some 1))))
   \<and> map p_id (blog_posts (state_AB (Some 1))) = [1]
   \<and> (\<exists>post st'.
         new_post scheme_URL day_example (rq_new_post (lit ''World'') (lit ''Education'')) (state_AB (Some 1))
           = (Inr (Redirect ''home''), st')
         \<and> blog_posts st' = [post_Hello, post]
         \<and> p_id post \<noteq> 1
         \<and> show_post (p_id post) st'
             = (Inr (Render ''post.html'' [(''post'', TPost (Some post)), (''year'', TNat (year st'))]), st')
         \<and> show_post (p_id post) (st'\<lparr>blog_posts := blog_posts st' @ [post_Hello\<lparr>p_id := 9\<rparr>]\<rparr>)
             = (Inr (Render ''post.html'' [(''post'', TPost (Some post)), (''year'', TNat (year st'))]),
                st'\<lparr>blog_posts := blog_posts st' @ [post_Hello\<lparr>p_id := 9\<rparr>]\<rparr>)
         \<and> show_post 1 st'
             = (Inr (Render ''post.html'' [(''post'', TPost (Some post_Hello)), (''year'', TNat (year st'))]), st')
         \<and> p_title post = lit ''World''
         \<and> p_genre post = lit ''Education''
         \<and> p_date post = lit ''11/04/2026'')"
proof -
  let ?st = "state_AB (Some 1)"
  let ?rq = "rq_new_post (lit ''World'') (lit ''Education'')"
  have fresh: "\<forall>q \<in> set (blog_posts ?st). p_title q \<noteq> cf_title (rq_form ?rq)"
    by (simp add: state_AB_def post_Hello_def rq_new_post_def lit_def)
  have fresh': "lit ''World'' \<notin> set (map p_title (blog_posts ?st))"
    by (simp add: state_AB_def post_Hello_def lit_def)
  have keys: "\<forall>q \<in> set (blog_posts ?st). p_id q < 2 ^ 63 - 1"
    by (simp add: state_AB_def post_Hello_def)
  have keys': "map p_id (blog_posts ?st) = [1]"
    by (simp add: state_AB_def post_Hello_def)
  have posts: "blog_posts ?st = [post_Hello]"
    by (simp add: state_AB_def)
  have old: "show_post 1 ?st
               = (Inr (Render ''post.html'' [(''post'', TPost (Some post_Hello)), (''year'', TNat (year ?st))]), ?st)"
    by (simp add: show_post_def BlogPost_query_get_def state_AB_def post_Hello_def)
  have day: "1 \<le> d_month day_example \<and> d_month day_example \<le> 12
             \<and> 1 \<le> d_day day_example \<and> d_day day_example \<le> 31
             \<and> 1000 \<le> d_year day_example \<and> d_year day_example \<le> 9999"
    by (simp add: day_example_def)
  have digits: "[48 + d_month day_example div 10, 48 + d_month day_example mod 10, 47,
                 48 + d_day day_example div 10, 48 + d_day day_example mod 10, 47,
                 48 + d_year day_example div 1000, 48 + d_year day_example div 100 mod 10,
                 48 + d_year day_example div 10 mod 10, 48 + d_year day_example mod 10]
                = lit ''11/04/2026''"
    by (simp add: day_example_def lit_def)
  have form: "cf_title (rq_form ?rq) = lit ''World''" "cf_genre (rq_form ?rq) = lit ''Education''"
    by (simp_all add: rq_new_post_def)
  from new_post_show_post_roundtrip [OF validate_new_post_example(2) fresh keys, of day_example]
  obtain post st' where
    created: "new_post scheme_URL day_example ?rq ?st = (Inr (Redirect ''home''), st')"
    and rows: "blog_posts st' = blog_posts ?st @ [post]"
    and key: "p_id post \<notin> p_id ` set (blog_posts ?st)"
    and shown: "show_post (p_id post) st'
             = (Inr (Render ''post.html'' [(''post'', TPost (Some post)), (''year'', TNat (year st'))]), st')"
    and later: "\<forall>later. show_post (p_id post) (st'\<lparr>blog_posts := blog_posts st' @ later\<rparr>)
             = (Inr (Render ''post.html'' [(''post'', TPost (Some post)), (''year'', TNat (year st'))]),
                st'\<lparr>blog_posts := blog_posts st' @ later\<rparr>)"
    and earlier: "\<forall>i q. show_post i ?st
                        = (Inr (Render ''post.html'' [(''post'', TPost (Some q)), (''year'', TNat (year ?st))]), ?st)
                    \<longrightarrow> show_post i st'
                        = (Inr (Render ''post.html'' [(''post'', TPost (Some q)), (''year'', TNat (year st'))]), st')"
    and title: "p_title post = cf_title (rq_form ?rq)"
    and genre: "p_genre post = cf_genre (rq_form ?rq)"
    and date: "1 \<le> d_month day_example \<and> d_month day_example \<le> 12
                \<and> 1 \<le> d_day day_example \<and> d_day day_example \<le> 31
                \<and> 1000 \<le> d_year day_example \<and> d_year day_example \<le> 9999 \<longrightarrow>
              p_date post =
                [48 + d_month day_example div 10, 48 + d_month day_example mod 10, 47,
                 48 + d_day day_example div 10, 48 + d_day day_example mod 10, 47,
                 48 + d_year day_example div 1000, 48 + d_year day_example div 100 mod 10,
                 48 + d_year day_example div 10 mod 10, 48 + d_year day_example mod 10]"
    by blast
  have "blog_posts st' = [post_Hello, post]"
    using rows posts by simp
  moreover have "p_id post \<noteq> 1"
    using key posts by (simp add: post_Hello_def)
  moreover have "show_post 1 st'
             = (Inr (Render ''post.html'' [(''post'', TPost (Some post_Hello)), (''year'', TNat (year st'))]), st')"
    using earlier old by blast
  moreover have "show_post (p_id post) (st'\<lparr>blog_posts := blog_posts st' @ [post_Hello\<lparr>p_id := 9\<rparr>]\<rparr>)
             = (Inr (Render ''post.html'' [(''post'', TPost (Some post)), (''year'', TNat (year st'))]),
                st'\<lparr>blog_posts := blog_posts st' @ [post_Hello\<lparr>p_id := 9\<rparr>]\<rparr>)"
    using later by blast
  moreover have "p_date post = lit ''11/04/2026''"
    using date day digits by simp
  moreover have "p_title post = lit ''World''" "p_genre post = lit ''Education''"
    using title genre form by simp_all
  ultimately show ?thesis
    using validate_new_post_example(2) fresh' keys' created shown by blast
qed

section \<open>Categories\<close>

text \<open>
  C8: Every request to every route should end in a normal response. Here a visitor asks
  for the category Sports: \<open>category_pics\<close> has no such key and the view is left with
  \<open>KeyError\<close> instead of a response.
\<close>

theorem post_category_unknown_raises:
  "post_category (lit ''Sports'') (state_AB None) = (Inl (KeyError (lit ''Sports'')), state_AB None)"
  by (simp add: post_category_def category_pics_def Let_def lit_def)

section \<open>Credentials\<close>

text \<open>
  C9, as the claim states it: two calls of \<open>generate_password_hash\<close> for one password
  should return different values. The salt is all that distinguishes two calls, and two
  calls that draw the same salt return the same value.
\<close>

theorem same_salt_same_hash_counterexample:
  "gen_salt 8 (lit ''q1W2e3R4'')
   \<and> \<not> (generate_password_hash sum_kdf (lit ''q1W2e3R4'') (lit ''password-of-A'') (lit ''pbkdf2:sha256'')
          \<noteq> generate_password_hash sum_kdf (lit ''q1W2e3R4'') (lit ''password-of-A'') (lit ''pbkdf2:sha256''))"
  using gen_salt_examples(1) by simp

text \<open>
  C9, amended: For every password, two calls of \<open>generate_password_hash\<close> that draw
  different 8-character salts return different stored values, and \<open>check_password_hash\<close>
  accepts the password against each of the two.
\<close>

theorem salted_hash_distinct_and_verified:
  assumes "gen_salt 8 salt1" and "gen_salt 8 salt2" and "salt1 \<noteq> salt2"
  shows "generate_password_hash kdf salt1 password (lit ''pbkdf2:sha256'')
           \<noteq> generate_password_hash kdf salt2 password (lit ''pbkdf2:sha256'')
         \<and> check_password_hash kdf
             (generate_password_hash kdf salt1 password (lit ''pbkdf2:sha256'')) password
         \<and> check_password_hash kdf
             (generate_password_hash kdf salt2 password (lit ''pbkdf2:sha256'')) password"
proof -
  from assms have "length salt1 = length salt2"
    by (simp add: gen_salt_def)
  with assms(3) have "generate_password_hash kdf salt1 password (lit ''pbkdf2:sha256'')
           \<noteq> generate_password_hash kdf salt2 password (lit ''pbkdf2:sha256'')"
    using generate_salt_inj by blast
  then show ?thesis
    using check_generate [OF pbkdf2_no_dollar gen_salt_no_dollar] assms(1,2) by blast
qed

theorem salted_hash_distinct_and_verified_witness:
  "gen_salt 8 (lit ''q1W2e3R4'') \<and> gen_salt 8 (lit ''z9Y8x7W6'') \<and> lit ''q1W2e3R4'' \<noteq> lit ''z9Y8x7W6''
   \<and> generate_password_hash sum_kdf (lit ''q1W2e3R4'') (lit ''password-of-A'') (lit ''pbkdf2:sha256'')
       \<noteq> generate_password_hash sum_kdf (lit ''z9Y8x7W6'') (lit ''password-of-A'') (lit ''pbkdf2:sha256'')
   \<and> check_password_hash sum_kdf
       (generate_password_hash sum_kdf (lit ''q1W2e3R4'') (lit ''password-of-A'') (lit ''pbkdf2:sha256''))
       (lit ''password-of-A'')
   \<and> check_password_hash sum_kdf
       (generate_password_hash sum_kdf (lit ''z9Y8x7W6'') (lit ''password-of-A'') (lit ''pbkdf2:sha256''))
       (lit ''password-of-A'')"
proof -
  have ne: "lit ''q1W2e3R4'' \<noteq> lit ''z9Y8x7W6''"
    by (simp add: lit_def)
  show ?thesis
    using salted_hash_distinct_and_verified [OF gen_salt_examples ne, of sum_kdf "lit ''password-of-A''"]
          gen_salt_examples ne
    by simp
qed

end
